theory Spec2Isabelle
  imports Complex_Main "HOL-Library.Sublist" "HOL-Library.Word"
begin

section \<open>The PostgreSQL storage of guillotina (guillotina/db/storages/pg.py)\<close>

text \<open>
  The storage talks to PostgreSQL through the asyncpg driver. The model stops at the
  driver: what a call to the driver answers (rows, or an exception) is an input of the
  modelled method, and what the method asks of its collaborators (the statement text and
  the parameters it sends, the locks it takes, what it logs, what it tells the cache) is
  returned as a list of events, in program order. One task runs alone: taking a lock is
  recorded and never waits.
\<close>

subsection \<open>Values\<close>

type_synonym oid = string
type_synonym bytes = "8 word list"

text \<open>A positional parameter of a statement; Python's \<open>None\<close> is sent as NULL.\<close>

datatype param =
    PStr string
  | PInt int
  | PBool bool
  | PBytes bytes
  | PStrs "string list"
  | PNull

definition opt_str :: "string option \<Rightarrow> param" where
  "opt_str v = (case v of None \<Rightarrow> PNull | Some s \<Rightarrow> PStr s)"

definition opt_int :: "int option \<Rightarrow> param" where
  "opt_int v = (case v of None \<Rightarrow> PNull | Some i \<Rightarrow> PInt i)"

text \<open>
  The constants pg.py imports from modules that are not part of the sources at hand
  (\<open>guillotina.db.oid.MAX_OID_LENGTH\<close>, \<open>guillotina.db.TRASHED_ID\<close>) are parameters.
\<close>

record pg_consts =
  MAX_OID_LENGTH :: nat
  TRASHED_ID :: oid

subsection \<open>Python's string operations\<close>

text \<open>\<open>sub in s\<close> on strings: \<open>sub\<close> occurs in \<open>s\<close> as a contiguous run.\<close>

fun str_in :: "string \<Rightarrow> string \<Rightarrow> bool" where
  "str_in sub [] = (sub = [])"
| "str_in sub (c # cs) = (prefix sub (c # cs) \<or> str_in sub cs)"

text \<open>The decimal rendering an f-string gives a non-negative integer.\<close>

definition digit_char :: "nat \<Rightarrow> char" where
  "digit_char d = char_of (48 + d)"

fun str_nat :: "nat \<Rightarrow> string" where
  "str_nat n = (if n < 10 then [digit_char n] else str_nat (n div 10) @ [digit_char (n mod 10)])"

declare str_nat.simps [simp del]

subsection \<open>The SQL statements\<close>

text \<open>
  The module builds its statements as f-strings in which \<open>{{table_name}}\<close> leaves the hole
  \<open>{table_name}\<close> and \<open>{MAX_OID_LENGTH}\<close> is replaced at import time.
\<close>

definition oidlen :: "pg_consts \<Rightarrow> string" where
  "oidlen c = str_nat (MAX_OID_LENGTH c)"

definition GET_ANNOTATIONS_KEYS :: "pg_consts \<Rightarrow> string" where
  "GET_ANNOTATIONS_KEYS c =
     ''\<newline>SELECT id, parent_id\<newline>'' @
     ''FROM {table_name}\<newline>'' @
     ''WHERE of = $1::varchar('' @ oidlen c @ '')\<newline>''"

definition GET_ANNOTATION :: "pg_consts \<Rightarrow> string" where
  "GET_ANNOTATION c =
     ''\<newline>SELECT zoid, tid, state_size, resource, type, state, id, parent_id\<newline>'' @
     ''FROM {table_name}\<newline>'' @
     ''WHERE\<newline>'' @
     ''    of = $1::varchar('' @ oidlen c @ '') AND\<newline>'' @
     ''    id = $2::text\<newline>''"

definition wrap_return_count :: "string \<Rightarrow> string" where
  "wrap_return_count txt =
     ''WITH rows AS (\<newline>'' @ txt @ ''\<newline>    RETURNING 1\<newline>)\<newline>SELECT count(*) FROM rows''"

definition NAIVE_UPSERT :: "pg_consts \<Rightarrow> string" where
  "NAIVE_UPSERT c =
     ''\<newline>INSERT INTO {table_name}\<newline>'' @
     ''(zoid, tid, state_size, part, resource, of, otid, parent_id, id, type, json, state)\<newline>'' @
     ''VALUES ($1::varchar('' @ oidlen c @ ''), $2::int, $3::int, $4::int, $5::boolean,\<newline>'' @
     ''        $6::varchar('' @ oidlen c @ ''), $7::int, $8::varchar('' @ oidlen c @ ''),\<newline>'' @
     ''        $9::text, $10::text, $11::json, $12::bytea)\<newline>'' @
     ''ON CONFLICT (zoid)\<newline>'' @
     ''DO UPDATE SET\<newline>'' @
     ''    tid = EXCLUDED.tid,\<newline>'' @
     ''    state_size = EXCLUDED.state_size,\<newline>'' @
     ''    part = EXCLUDED.part,\<newline>'' @
     ''    resource = EXCLUDED.resource,\<newline>'' @
     ''    of = EXCLUDED.of,\<newline>'' @
     ''    otid = EXCLUDED.otid,\<newline>'' @
     ''    parent_id = EXCLUDED.parent_id,\<newline>'' @
     ''    id = EXCLUDED.id,\<newline>'' @
     ''    type = EXCLUDED.type,\<newline>'' @
     ''    json = EXCLUDED.json,\<newline>'' @
     ''    state = EXCLUDED.state''"

definition NAIVE_UPDATE :: "pg_consts \<Rightarrow> string" where
  "NAIVE_UPDATE c =
     ''\<newline>UPDATE {table_name}\<newline>'' @
     ''SET\<newline>'' @
     ''    tid = $2::int,\<newline>'' @
     ''    state_size = $3::int,\<newline>'' @
     ''    part = $4::int,\<newline>'' @
     ''    resource = $5::boolean,\<newline>'' @
     ''    of = $6::varchar('' @ oidlen c @ ''),\<newline>'' @
     ''    otid = $7::int,\<newline>'' @
     ''    parent_id = $8::varchar('' @ oidlen c @ ''),\<newline>'' @
     ''    id = $9::text,\<newline>'' @
     ''    type = $10::text,\<newline>'' @
     ''    json = $11::json,\<newline>'' @
     ''    state = $12::bytea\<newline>'' @
     ''WHERE\<newline>'' @
     ''    zoid = $1::varchar('' @ oidlen c @ '')''"

definition NEXT_TID :: string where
  "NEXT_TID = ''SELECT nextval('' @ [CHR 0x27] @ ''tid_sequence'' @ [CHR 0x27] @ '');''"

definition MAX_TID :: string where
  "MAX_TID = ''SELECT last_value FROM tid_sequence;''"

definition READ_BLOB_CHUNK :: "pg_consts \<Rightarrow> string" where
  "READ_BLOB_CHUNK c =
     ''\<newline>SELECT * from {table_name}\<newline>'' @
     ''WHERE bid = $1::VARCHAR('' @ oidlen c @ '')\<newline>'' @
     ''AND chunk_index = $2::int\<newline>''"

definition TXN_CONFLICTS :: string where
  "TXN_CONFLICTS =
     ''\<newline>    SELECT zoid, tid, state_size, resource, type, id\<newline>'' @
     ''    FROM {table_name}\<newline>'' @
     ''    WHERE tid > $1''"

text \<open>The names under which the module registers the statements modelled here.\<close>

datatype stmt_name =
    N_GET_ANNOTATIONS_KEYS
  | N_GET_ANNOTATION
  | N_UPSERT
  | N_NAIVE_UPSERT
  | N_UPDATE
  | N_NAIVE_UPDATE
  | N_READ_BLOB_CHUNK
  | N_TXN_CONFLICTS
  | N_TXN_CONFLICTS_ON_OIDS

text \<open>What each \<open>register_sql(name, sql)\<close> call of the module passes as \<open>sql\<close>.\<close>

fun registered :: "pg_consts \<Rightarrow> stmt_name \<Rightarrow> string" where
  "registered c N_GET_ANNOTATIONS_KEYS = GET_ANNOTATIONS_KEYS c"
| "registered c N_GET_ANNOTATION = GET_ANNOTATION c"
| "registered c N_UPSERT =
     wrap_return_count (NAIVE_UPSERT c @ ''\<newline>WHERE\<newline>    tid = EXCLUDED.otid'')"
| "registered c N_NAIVE_UPSERT = wrap_return_count (NAIVE_UPSERT c)"
| "registered c N_UPDATE = wrap_return_count (NAIVE_UPDATE c @ '' AND tid = $7::int'')"
| "registered c N_NAIVE_UPDATE = wrap_return_count (NAIVE_UPDATE c)"
| "registered c N_READ_BLOB_CHUNK = READ_BLOB_CHUNK c"
| "registered c N_TXN_CONFLICTS = TXN_CONFLICTS"
| "registered c N_TXN_CONFLICTS_ON_OIDS = TXN_CONFLICTS @ '' AND zoid = ANY($2)''"

text \<open>
  Modelled from the spec: \<open>SQLStatements.get\<close> of \<open>guillotina.db.storages.utils\<close>, which is
  not among the sources. The spec describes the registry as a mapping from a statement
  name to a templated string with \<open>{table_name}\<close> holes, and \<open>get(name, table)\<close> as
  returning the statement materialized against the table name: every hole is replaced by
  the table name.
\<close>

fun fill_table_name :: "string \<Rightarrow> string \<Rightarrow> string" where
  "fill_table_name tbl [] = []"
| "fill_table_name tbl (c # cs) =
     (if prefix ''{table_name}'' (c # cs) then tbl @ fill_table_name tbl (drop 11 cs)
      else c # fill_table_name tbl cs)"

text \<open>
  Modelled from the spec: \<open>self._sql.get(name, table_name)\<close>, the registered statement of
  that name with the table name filled in.
\<close>

definition sql_get :: "pg_consts \<Rightarrow> stmt_name \<Rightarrow> string \<Rightarrow> string" where
  "sql_get c name table_name = fill_table_name table_name (registered c name)"

subsection \<open>Exceptions, results, events\<close>

text \<open>
  The exceptions that cross the model: those of the driver that the storage handles, those
  the storage raises, and Python's own. An asyncpg \<open>InterfaceError\<close> carries its message
  (what \<open>str(ex)\<close> and \<open>ex.args[0]\<close> read), a \<open>UniqueViolationError\<close> the detail string
  the code searches. The conflict errors carry their message and, when the code passes
  them, the oid and the old serial of the write.
\<close>

datatype exn =
    ConflictError string "(oid \<times> int option) option"
  | TIDConflictError string oid "int option"
  | ConflictIdOnContainer string
  | UniqueViolationError string
  | ForeignKeyViolationError
  | InterfaceError string
  | DeadlockDetectedError
  | TimeoutError
  | AssertionError
  | AttributeError
  | OtherError string

datatype 'a result = Returns 'a | Raises exn

definition answered :: "exn + 'a \<Rightarrow> 'a result" where
  "answered r = (case r of Inl e \<Rightarrow> Raises e | Inr v \<Rightarrow> Returns v)"

datatype level = INFO | WARNING | ERROR

datatype lock = StorageLock | TxnLock

text \<open>
  \<open>ReadConn\<close> is the storage's shared read session (\<open>self._read_conn\<close>), \<open>TxnConn\<close> the
  session of the transaction (\<open>txn.get_connection()\<close>).
\<close>

datatype session = ReadConn | TxnConn

type_synonym pool_ref = nat
type_synonym conn_ref = nat

datatype prepared = Prepared conn_ref string

record obj =
  new_marker :: bool
  p_serial :: "int option"
  p_oid :: oid

text \<open>
  What a method asks of the outside, in program order. A log event holds the level, the
  fixed text of the message and the numbers formatted into it.
\<close>

datatype event =
    Log level string "int list"
  | LockAcquire lock
  | LockRelease lock
  | GetConnection
  | Fetch session string "param list"
  | FetchRow session string "param list" bool
  | Cursor session string "param list"
  | CacheStore obj bytes
  | CreatePool string nat nat
  | PoolAcquire pool_ref real
  | PoolClose pool_ref real
  | PoolTerminate pool_ref
  | Prepare conn_ref string
  | TimeRead

subsection \<open>The objects of the storage's callers\<close>

text \<open>
  The writer with what its methods return: \<open>serialized\<close> is \<open>writer.serialize()\<close> and
  \<open>json_doc\<close> is \<open>ujson.dumps(await writer.get_json())\<close>.
\<close>

record writer =
  serialized :: bytes
  json_doc :: string
  w_part :: "int option"
  w_resource :: bool
  w_of :: "oid option"
  w_parent_id :: "oid option"
  w_id :: "string option"
  w_type :: string

text \<open>The transaction: \<open>modified\<close> is a dict, kept in insertion order.\<close>

record txn =
  tid :: int
  modified :: "(oid \<times> obj) list"
  deleted :: "oid \<rightharpoonup> obj"

text \<open>
  The attributes of the storage. \<open>calls\<close> is not an attribute: it is the list of calls the
  connection management further down has made to the outside so far.
\<close>

record storage =
  dsn :: string
  pool_size :: nat
  conn_acquire_timeout :: real
  objects_table_name :: string
  blobs_table_name :: string
  large_record_size :: nat
  pool :: "pool_ref option"
  read_conn :: "conn_ref option"
  stmt_next_tid :: "prepared option"
  stmt_max_tid :: "prepared option"
  connection_initialized_on :: real
  calls :: "event list"

subsection \<open>store\<close>

text \<open>
  \<open>response\<close> is what \<open>conn.fetch\<close> answers: an exception, or the rows, each row being its
  \<open>count\<close> column. The method returns its result, the transaction and its events.
  \<open>oid_arg\<close> is \<open>None\<close> when the caller passes no oid, which the assertion refuses.
\<close>

definition store ::
  "pg_consts \<Rightarrow> storage \<Rightarrow> oid option \<Rightarrow> int option \<Rightarrow> writer \<Rightarrow> obj \<Rightarrow> txn \<Rightarrow> exn + int list
     \<Rightarrow> unit result \<times> txn \<times> event list" where
  "store c self oid_arg old_serial writer ob txn response =
     (case oid_arg of
        None \<Rightarrow> (Raises AssertionError, txn, [])
      | Some oid \<Rightarrow>
          let pickled = serialized writer;
              large = (if length pickled \<ge> large_record_size self
                       then [Log INFO ''Large object'' [int (length pickled)]] else []);
              json = json_doc writer;
              part = (case w_part writer of None \<Rightarrow> 0 | Some p \<Rightarrow> p);
              update = (\<not> new_marker ob \<and> p_serial ob \<noteq> None);
              statement_sql = (if update then sql_get c N_UPDATE (objects_table_name self)
                               else sql_get c N_NAIVE_UPSERT (objects_table_name self));
              sent = large @
                [GetConnection, LockAcquire TxnLock,
                 Fetch TxnConn statement_sql
                   [PStr oid, PInt (tid txn), PInt (int (length pickled)), PInt part,
                    PBool (w_resource writer), opt_str (w_of writer), opt_int old_serial,
                    opt_str (w_parent_id writer), opt_str (w_id writer), PStr (w_type writer),
                    PStr json, PBytes pickled]]
          in case response of
               Inl (UniqueViolationError detail) \<Rightarrow>
                 if str_in ''Key (parent_id, id)'' detail
                 then (Raises (ConflictIdOnContainer detail), txn, sent @ [LockRelease TxnLock])
                 else (Raises (UniqueViolationError detail), txn, sent @ [LockRelease TxnLock])
             | Inl ForeignKeyViolationError \<Rightarrow>
                 (Raises (TIDConflictError
                    (''Bad value inserting into database that could be caused '' @
                     ''by a bad cache value. This should resolve on request retry.'')
                    oid old_serial),
                  txn\<lparr>deleted := (deleted txn)(p_oid ob \<mapsto> ob)\<rparr>,
                  sent @ [LockRelease TxnLock])
             | Inl (InterfaceError msg) \<Rightarrow>
                 if str_in ''another operation is in progress'' msg
                 then (Raises (ConflictError ''asyncpg error, another operation in progress.''
                         (Some (oid, old_serial))),
                       txn, sent @ [LockRelease TxnLock])
                 else (Raises (InterfaceError msg), txn, sent @ [LockRelease TxnLock])
             | Inl DeadlockDetectedError \<Rightarrow>
                 (Raises (ConflictError ''Deadlock detected.'' (Some (oid, old_serial))),
                  txn, sent @ [LockRelease TxnLock])
             | Inl e \<Rightarrow> (Raises e, txn, sent @ [LockRelease TxnLock])
             | Inr rows \<Rightarrow>
                 if length rows \<noteq> 1 \<or> rows ! 0 \<noteq> 1 then
                   if update then
                     (Raises (TIDConflictError
                        (''Mismatch of tid of object being updated. This is likely '' @
                         ''caused by a cache invalidation race condition and should '' @
                         ''be an edge case. This should resolve on request retry.'')
                        oid old_serial),
                      txn, sent @ [LockRelease TxnLock])
                   else
                     (Returns (), txn,
                      sent @
                      [Log ERROR
                         (''Incorrect response count from database update. '' @
                          ''This should not happen. tid: {}'') [tid txn],
                       LockRelease TxnLock, CacheStore ob pickled])
                 else (Returns (), txn, sent @ [LockRelease TxnLock, CacheStore ob pickled]))"

subsection \<open>get_conflicts\<close>

text \<open>\<open>response\<close> is what \<open>self._read_conn.fetch\<close> answers when it is called.\<close>

definition get_conflicts ::
  "pg_consts \<Rightarrow> storage \<Rightarrow> txn \<Rightarrow> exn + 'r list \<Rightarrow> 'r list result \<times> event list" where
  "get_conflicts c self txn response =
     (if length (modified txn) = 0 then
        (Returns [], [LockAcquire StorageLock, LockRelease StorageLock])
      else if length (modified txn) < 1000 then
        (let modified_oids = map fst (modified txn);
             sql = sql_get c N_TXN_CONFLICTS_ON_OIDS (objects_table_name self)
         in (answered response,
             [LockAcquire StorageLock,
              Fetch ReadConn sql [PInt (tid txn), PStrs modified_oids],
              LockRelease StorageLock]))
      else
        (let sql = sql_get c N_TXN_CONFLICTS (objects_table_name self)
         in (answered response,
             [LockAcquire StorageLock,
              Fetch ReadConn sql [PInt (tid txn)],
              LockRelease StorageLock])))"

subsection \<open>Annotations\<close>

text \<open>
  The rows of \<open>GET_ANNOTATIONS_KEYS\<close> have the columns \<open>id\<close> and \<open>parent_id\<close>; those of
  \<open>GET_ANNOTATION\<close> have these and six more. Both \<open>id\<close> and \<open>parent_id\<close> are nullable.
\<close>

record key_row =
  row_id :: "string option"
  row_parent_id :: "oid option"

record annotation_row = key_row +
  row_zoid :: oid
  row_tid :: int
  row_state_size :: int
  row_resource :: bool
  row_type :: string
  row_state :: "bytes option"

text \<open>
  \<open>get_one_row\<close>: with \<open>prepare\<close> the statement is prepared and the row fetched from the
  prepared statement, else \<open>conn.fetchrow\<close> is called; the flag of the event tells which.
  \<open>response\<close> is the row that comes back, if any, or the exception.
\<close>

definition get_one_row ::
  "string \<Rightarrow> param list \<Rightarrow> bool \<Rightarrow> exn + 'r option \<Rightarrow> 'r option result \<times> event list" where
  "get_one_row sql args prepare response =
     (answered response, [GetConnection, FetchRow TxnConn sql args prepare])"

definition get_annotation ::
  "pg_consts \<Rightarrow> storage \<Rightarrow> oid \<Rightarrow> string \<Rightarrow> exn + ('a key_row_scheme) option
     \<Rightarrow> ('a key_row_scheme) option result \<times> event list" where
  "get_annotation c self oid ident response =
     (let sql = sql_get c N_GET_ANNOTATION (objects_table_name self)
      in case get_one_row sql [PStr oid, PStr ident] True response of
           (Raises e, evs) \<Rightarrow> (Raises e, [LockAcquire TxnLock] @ evs @ [LockRelease TxnLock])
         | (Returns res, evs) \<Rightarrow>
             (Returns (case res of
                         None \<Rightarrow> None
                       | Some row \<Rightarrow>
                           if row_parent_id row = Some (TRASHED_ID c) then None else Some row),
              [LockAcquire TxnLock] @ evs @ [LockRelease TxnLock]))"

text \<open>The loop of \<open>get_annotation_keys\<close>, \<open>items\<close> being the list it appends to.\<close>

fun append_untrashed ::
  "oid \<Rightarrow> ('a key_row_scheme) list \<Rightarrow> ('a key_row_scheme) list \<Rightarrow> ('a key_row_scheme) list" where
  "append_untrashed trashed [] items = items"
| "append_untrashed trashed (item # rest) items =
     append_untrashed trashed rest
       (if row_parent_id item \<noteq> Some trashed then items @ [item] else items)"

definition get_annotation_keys ::
  "pg_consts \<Rightarrow> storage \<Rightarrow> oid \<Rightarrow> exn + ('a key_row_scheme) list
     \<Rightarrow> ('a key_row_scheme) list result \<times> event list" where
  "get_annotation_keys c self oid response =
     (let sql = sql_get c N_GET_ANNOTATIONS_KEYS (objects_table_name self);
          evs = [GetConnection, LockAcquire TxnLock, Fetch TxnConn sql [PStr oid],
                 LockRelease TxnLock]
      in case response of
           Inl e \<Rightarrow> (Raises e, evs)
         | Inr rows \<Rightarrow> (Returns (append_untrashed (TRASHED_ID c) rows []), evs))"

subsection \<open>read_blob_chunks\<close>

text \<open>
  An asynchronous generator: it yields the records of the cursor it opens, then ends, or
  raises what the cursor raises. \<open>response\<close> is what the cursor delivers: records, then
  possibly an exception. The result is the list of records yielded, how the generator
  ends, and the events.
\<close>

definition read_blob_chunks ::
  "storage \<Rightarrow> string \<Rightarrow> 'r list \<times> exn option \<Rightarrow> 'r list \<times> unit result \<times> event list" where
  "read_blob_chunks self bid response =
     (fst response,
      (case snd response of None \<Rightarrow> Returns () | Some e \<Rightarrow> Raises e),
      [GetConnection, Cursor TxnConn bid []])"

subsection \<open>Connection management: open, _check_bad_connection, restart_connection\<close>


definition emit :: "event \<Rightarrow> storage \<Rightarrow> storage" where
  "emit e self = self\<lparr>calls := calls self @ [e]\<rparr>"










subsection \<open>What the wrapped statements answer\<close>




subsection \<open>Observations on events\<close>

text \<open>The statements a list of events sends to a session, with their parameters.\<close>

fun statement_of :: "event \<Rightarrow> (session \<times> string \<times> param list) option" where
  "statement_of (Fetch s sql args) = Some (s, sql, args)"
| "statement_of (FetchRow s sql args prepare) = Some (s, sql, args)"
| "statement_of (Cursor s sql args) = Some (s, sql, args)"
| "statement_of e = None"

definition executed :: "event list \<Rightarrow> (session \<times> string \<times> param list) list" where
  "executed evs = List.map_filter statement_of evs"

subsection \<open>Example values\<close>

text \<open>Concrete constants, storage, writer, objects, transactions, rows and worlds.\<close>

definition example_consts :: pg_consts where
  "example_consts = \<lparr>MAX_OID_LENGTH = 64, TRASHED_ID = ''DDDD''\<rparr>"

definition example_storage :: storage where
  "example_storage = \<lparr>dsn = ''postgres://localhost/guillotina'', pool_size = 13,
     conn_acquire_timeout = 20, objects_table_name = ''objects'', blobs_table_name = ''blobs'',
     large_record_size = 16777216, pool = Some 1, read_conn = Some 1,
     stmt_next_tid = Some (Prepared 1 NEXT_TID), stmt_max_tid = Some (Prepared 1 MAX_TID),
     connection_initialized_on = 0, calls = []\<rparr>"

definition example_writer :: writer where
  "example_writer = \<lparr>serialized = [0], json_doc = ''{}'', w_part = None, w_resource = True,
     w_of = None, w_parent_id = None, w_id = None, w_type = ''X''\<rparr>"

definition stored_obj :: obj where
  "stored_obj = \<lparr>new_marker = False, p_serial = Some 1, p_oid = ''A''\<rparr>"

definition new_obj :: obj where
  "new_obj = \<lparr>new_marker = True, p_serial = None, p_oid = ''A''\<rparr>"

definition example_txn :: txn where
  "example_txn = \<lparr>tid = 2, modified = [(''A'', stored_obj)], deleted = Map.empty\<rparr>"

definition unmodified_txn :: txn where
  "unmodified_txn = \<lparr>tid = 2, modified = [], deleted = Map.empty\<rparr>"

definition big_txn :: txn where
  "big_txn = \<lparr>tid = 2, modified = map (\<lambda>i. (str_nat i, stored_obj)) [0..<1000],
     deleted = Map.empty\<rparr>"

definition trashed_row :: key_row where
  "trashed_row = \<lparr>row_id = Some ''a'', row_parent_id = Some ''DDDD''\<rparr>"

definition live_row :: key_row where
  "live_row = \<lparr>row_id = Some ''b'', row_parent_id = Some ''P''\<rparr>"



section \<open>Properties\<close>

subsection \<open>Filling the table name into a statement\<close>

lemma fill_no_open:
  "CHR ''{'' \<notin> set a \<Longrightarrow> fill_table_name tbl (a @ b) = a @ fill_table_name tbl b"
  by (induction a) auto

lemma hole_needs_close:
  assumes "prefix ''{table_name}'' s" shows "CHR ''}'' \<in> set s"
proof -
  from assms obtain r where "s = ''{table_name}'' @ r" by (auto simp: prefix_def)
  then show ?thesis by simp
qed

lemma fill_no_close: "CHR ''}'' \<notin> set b \<Longrightarrow> fill_table_name tbl b = b"
proof (induction b)
  case Nil then show ?case by simp
next
  case (Cons x b)
  have np: "\<not> prefix ''{table_name}'' (x # b)" using hole_needs_close Cons.prems by blast
  have "fill_table_name tbl (x # b) = x # fill_table_name tbl b"
    by (subst fill_table_name.simps) (simp only: np if_False)
  with Cons show ?case by simp
qed

lemma prefix_hole_append:
  assumes "CHR ''}'' \<notin> set b"
  shows "prefix ''{table_name}'' (a @ b) \<longleftrightarrow> prefix ''{table_name}'' a"
proof
  assume p: "prefix ''{table_name}'' (a @ b)"
  then obtain zs where e: "a @ b = ''{table_name}'' @ zs" by (auto simp: prefix_def)
  have t: "take 12 (a @ b) = ''{table_name}''" by (subst e) simp
  show "prefix ''{table_name}'' a"
  proof (cases "length a \<ge> 12")
    case True
    with t have "take 12 a = ''{table_name}''" by simp
    then show ?thesis by (metis take_is_prefix)
  next
    case False
    have "(a @ b) ! 11 = CHR ''}''" by (subst e) simp
    moreover have "length (a @ b) \<ge> 12" by (subst e) simp
    ultimately have "b ! (11 - length a) = CHR ''}''" "11 - length a < length b"
      using False by (auto simp: nth_append)
    then have "CHR ''}'' \<in> set b" by (metis nth_mem)
    with assms show ?thesis by simp
  qed
next
  assume "prefix ''{table_name}'' a" then show "prefix ''{table_name}'' (a @ b)" by (rule prefix_prefix)
qed

lemma fill_append_closed:
  "CHR ''}'' \<notin> set b \<Longrightarrow> fill_table_name tbl (a @ b) = fill_table_name tbl a @ b"
proof (induction tbl a rule: fill_table_name.induct)
  case (1 tbl)
  then show ?case by (simp add: fill_no_close)
next
  case (2 tbl c cs)
  show ?case
  proof (cases "prefix ''{table_name}'' (c # cs)")
    case True
    then obtain zs where "c # cs = ''{table_name}'' @ zs" by (auto simp: prefix_def)
    then have l: "length cs \<ge> 11" by (cases cs) auto
    from True have pb: "prefix ''{table_name}'' (c # (cs @ b))"
      using prefix_prefix[of "''{table_name}''" "c # cs" b] by simp
    have "fill_table_name tbl ((c # cs) @ b) = tbl @ fill_table_name tbl (drop 11 (cs @ b))"
      using pb by (simp del: Cons_prefix_Cons)
    also have "drop 11 (cs @ b) = drop 11 cs @ b" using l by simp
    also have "fill_table_name tbl (drop 11 cs @ b) = fill_table_name tbl (drop 11 cs) @ b"
      using 2(1)[OF True 2(3)] .
    also have "tbl @ fill_table_name tbl (drop 11 cs) @ b = fill_table_name tbl (c # cs) @ b"
      using True by (simp del: Cons_prefix_Cons)
    finally show ?thesis .
  next
    case False
    then have nb: "\<not> prefix ''{table_name}'' (c # (cs @ b))"
      using prefix_hole_append[OF 2(3), of "c # cs"] by simp
    have "fill_table_name tbl ((c # cs) @ b) = c # fill_table_name tbl (cs @ b)"
      using nb by (simp del: Cons_prefix_Cons)
    also have "\<dots> = c # fill_table_name tbl cs @ b" using 2(2)[OF False 2(3)] by simp
    also have "\<dots> = fill_table_name tbl (c # cs) @ b" using False by (simp del: Cons_prefix_Cons)
    finally show ?thesis .
  qed
qed

lemma digit_no_brace:
  assumes "k < 10" shows "digit_char k \<noteq> CHR ''{'' \<and> digit_char k \<noteq> CHR ''}''"
proof -
  have v: "of_char (digit_char k) = 48 + k" using assms by (simp add: digit_char_def)
  have "(of_char (CHR ''{'') :: nat) = 123" "(of_char (CHR ''}'') :: nat) = 125" by simp_all
  with v assms show ?thesis by auto
qed

lemma digits_no_brace: "CHR ''{'' \<notin> set (str_nat n) \<and> CHR ''}'' \<notin> set (str_nat n)"
proof (induction n rule: str_nat.induct)
  case (1 n)
  show ?case
  proof (cases "n < 10")
    case True
    then have "str_nat n = [digit_char n]" by (subst str_nat.simps) simp
    then show ?thesis using digit_no_brace[OF True] by auto
  next
    case False
    then have "str_nat n = str_nat (n div 10) @ [digit_char (n mod 10)]" by (subst str_nat.simps) simp
    then show ?thesis using 1[OF False] digit_no_brace[of "n mod 10"] by auto
  qed
qed

lemma oidlen_no_brace: "CHR ''{'' \<notin> set (oidlen c)" "CHR ''}'' \<notin> set (oidlen c)"
  using digits_no_brace by (simp_all add: oidlen_def)

lemma fill_oidlen: "fill_table_name tbl (oidlen c @ b) = oidlen c @ fill_table_name tbl b"
  by (rule fill_no_open) (rule oidlen_no_brace)

lemma fill_wrap_return_count:
  "fill_table_name tbl (wrap_return_count txt)
     = ''WITH rows AS (\<newline>'' @ fill_table_name tbl txt
       @ ''\<newline>    RETURNING 1\<newline>)\<newline>SELECT count(*) FROM rows''"
proof -
  have "fill_table_name tbl (wrap_return_count txt)
      = ''WITH rows AS (\<newline>'' @ fill_table_name tbl
          (txt @ ''\<newline>    RETURNING 1\<newline>)\<newline>SELECT count(*) FROM rows'')"
    unfolding wrap_return_count_def by (rule fill_no_open) simp
  also have "fill_table_name tbl (txt @ ''\<newline>    RETURNING 1\<newline>)\<newline>SELECT count(*) FROM rows'')
      = fill_table_name tbl txt @ ''\<newline>    RETURNING 1\<newline>)\<newline>SELECT count(*) FROM rows''"
    by (rule fill_append_closed) simp
  finally show ?thesis .
qed

lemma fill_NAIVE_UPSERT_head:
  "\<exists>rest. fill_table_name tbl (NAIVE_UPSERT c @ x) = ''\<newline>INSERT INTO '' @ rest"
proof -
  have "NAIVE_UPSERT c @ x = ''\<newline>INSERT INTO '' @ drop 13 (NAIVE_UPSERT c @ x)"
    by (simp add: NAIVE_UPSERT_def)
  then have "fill_table_name tbl (NAIVE_UPSERT c @ x)
     = fill_table_name tbl (''\<newline>INSERT INTO '' @ drop 13 (NAIVE_UPSERT c @ x))" by simp
  also have "\<dots> = ''\<newline>INSERT INTO '' @ fill_table_name tbl (drop 13 (NAIVE_UPSERT c @ x))"
    by (rule fill_no_open) simp
  finally show ?thesis by blast
qed

lemma fill_NAIVE_UPDATE_head:
  "\<exists>rest. fill_table_name tbl (NAIVE_UPDATE c @ x) = ''\<newline>UPDATE '' @ rest"
proof -
  have "NAIVE_UPDATE c @ x = ''\<newline>UPDATE '' @ drop 8 (NAIVE_UPDATE c @ x)"
    by (simp add: NAIVE_UPDATE_def)
  then have "fill_table_name tbl (NAIVE_UPDATE c @ x)
     = fill_table_name tbl (''\<newline>UPDATE '' @ drop 8 (NAIVE_UPDATE c @ x))" by simp
  also have "\<dots> = ''\<newline>UPDATE '' @ fill_table_name tbl (drop 8 (NAIVE_UPDATE c @ x))"
    by (rule fill_no_open) simp
  finally show ?thesis by blast
qed

lemma upsert_differs_from_update:
  "sql_get c N_NAIVE_UPSERT tbl \<noteq> sql_get c N_UPDATE tbl"
proof -
  obtain r1 where r1: "fill_table_name tbl (NAIVE_UPSERT c @ []) = ''\<newline>INSERT INTO '' @ r1"
    using fill_NAIVE_UPSERT_head by blast
  obtain r2 where r2: "fill_table_name tbl (NAIVE_UPDATE c @ '' AND tid = $7::int'') = ''\<newline>UPDATE '' @ r2"
    using fill_NAIVE_UPDATE_head by blast
  show ?thesis using r1 r2 by (simp add: sql_get_def fill_wrap_return_count)
qed

lemma fill_NAIVE_UPDATE:
  "fill_table_name tbl (NAIVE_UPDATE c) =
     ''\<newline>UPDATE '' @ tbl @ ''\<newline>'' @
     ''SET\<newline>'' @
     ''    tid = $2::int,\<newline>'' @
     ''    state_size = $3::int,\<newline>'' @
     ''    part = $4::int,\<newline>'' @
     ''    resource = $5::boolean,\<newline>'' @
     ''    of = $6::varchar('' @ oidlen c @ ''),\<newline>'' @
     ''    otid = $7::int,\<newline>'' @
     ''    parent_id = $8::varchar('' @ oidlen c @ ''),\<newline>'' @
     ''    id = $9::text,\<newline>'' @
     ''    type = $10::text,\<newline>'' @
     ''    json = $11::json,\<newline>'' @
     ''    state = $12::bytea\<newline>'' @
     ''WHERE\<newline>'' @
     ''    zoid = $1::varchar('' @ oidlen c @ '')''"
  by (simp add: NAIVE_UPDATE_def fill_oidlen)

lemma sql_get_UPDATE:
  "sql_get c N_UPDATE tbl =
     ''WITH rows AS (\<newline>'' @
     ''\<newline>UPDATE '' @ tbl @ ''\<newline>'' @
     ''SET\<newline>'' @
     ''    tid = $2::int,\<newline>'' @
     ''    state_size = $3::int,\<newline>'' @
     ''    part = $4::int,\<newline>'' @
     ''    resource = $5::boolean,\<newline>'' @
     ''    of = $6::varchar('' @ oidlen c @ ''),\<newline>'' @
     ''    otid = $7::int,\<newline>'' @
     ''    parent_id = $8::varchar('' @ oidlen c @ ''),\<newline>'' @
     ''    id = $9::text,\<newline>'' @
     ''    type = $10::text,\<newline>'' @
     ''    json = $11::json,\<newline>'' @
     ''    state = $12::bytea\<newline>'' @
     ''WHERE\<newline>'' @
     ''    zoid = $1::varchar('' @ oidlen c @ '') AND tid = $7::int'' @
     ''\<newline>    RETURNING 1\<newline>)\<newline>SELECT count(*) FROM rows''"
proof -
  have "fill_table_name tbl (NAIVE_UPDATE c @ '' AND tid = $7::int'')
      = fill_table_name tbl (NAIVE_UPDATE c) @ '' AND tid = $7::int''"
    by (rule fill_append_closed) simp
  then show ?thesis by (simp add: sql_get_def fill_wrap_return_count fill_NAIVE_UPDATE)
qed

lemma sql_get_TXN_CONFLICTS:
  "sql_get c N_TXN_CONFLICTS tbl
     = ''\<newline>    SELECT zoid, tid, state_size, resource, type, id\<newline>    FROM '' @ tbl
       @ ''\<newline>    WHERE tid > $1''"
  by (simp add: sql_get_def TXN_CONFLICTS_def)

lemma sql_get_TXN_CONFLICTS_ON_OIDS:
  "sql_get c N_TXN_CONFLICTS_ON_OIDS tbl
     = ''\<newline>    SELECT zoid, tid, state_size, resource, type, id\<newline>    FROM '' @ tbl
       @ ''\<newline>    WHERE tid > $1 AND zoid = ANY($2)''"
  by (simp add: sql_get_def TXN_CONFLICTS_def)

subsection \<open>Auxiliary facts about the methods\<close>


lemma append_untrashed_filter:
  "append_untrashed t rows items = items @ filter (\<lambda>item. row_parent_id item \<noteq> Some t) rows"
  by (induction rows arbitrary: items) auto

lemma executed_store:
  "executed (snd (snd (store c self (Some oid) old_serial writer ob txn response)))
     = [(TxnConn,
         (if \<not> new_marker ob \<and> p_serial ob \<noteq> None
          then sql_get c N_UPDATE (objects_table_name self)
          else sql_get c N_NAIVE_UPSERT (objects_table_name self)),
         [PStr oid, PInt (tid txn), PInt (int (length (serialized writer))),
          PInt (case w_part writer of None \<Rightarrow> 0 | Some p \<Rightarrow> p),
          PBool (w_resource writer), opt_str (w_of writer), opt_int old_serial,
          opt_str (w_parent_id writer), opt_str (w_id writer), PStr (w_type writer),
          PStr (json_doc writer), PBytes (serialized writer)])]"
  by (cases response; cases "projl response")
     (auto simp: store_def Let_def executed_def List.map_filter_def split: exn.splits sum.splits)


lemma length_calls_emit [simp]: "length (calls (emit e self)) = Suc (length (calls self))"
  by (simp add: emit_def)

lemma emit_fields [simp]:
  "pool (emit e self) = pool self" "read_conn (emit e self) = read_conn self"
  "stmt_next_tid (emit e self) = stmt_next_tid self" "stmt_max_tid (emit e self) = stmt_max_tid self"
  "connection_initialized_on (emit e self) = connection_initialized_on self"
  "dsn (emit e self) = dsn self" "pool_size (emit e self) = pool_size self"
  "conn_acquire_timeout (emit e self) = conn_acquire_timeout self"
  "calls (emit e self) = calls self @ [e]"
  by (simp_all add: emit_def)


subsection \<open>The claims\<close>

text \<open>
  Claim C1. When \<open>store\<close> is called with an oid and the rows that come back are not a
  single row whose count is 1: on the
  update path (the object has no new marker and its prior serial is not null) \<open>store\<close>
  raises \<open>TIDConflictError\<close>; on the insert path, where the statement sent is
  \<open>NAIVE_UPSERT\<close>, \<open>store\<close> logs at error level, releases the lock, notifies the cache and
  returns without raising.
\<close>

theorem store_count_not_one:
  assumes "length rows \<noteq> 1 \<or> rows ! 0 \<noteq> 1"
  shows "(\<not> new_marker ob \<and> p_serial ob \<noteq> None \<longrightarrow>
            (\<exists>msg. fst (store c self (Some oid) old_serial writer ob txn (Inr rows))
                     = Raises (TIDConflictError msg oid old_serial)))
       \<and> (new_marker ob \<or> p_serial ob = None \<longrightarrow>
            fst (store c self (Some oid) old_serial writer ob txn (Inr rows)) = Returns ()
            \<and> (\<exists>sent args msg.
                  snd (snd (store c self (Some oid) old_serial writer ob txn (Inr rows)))
                  = sent @ [Fetch TxnConn (sql_get c N_NAIVE_UPSERT (objects_table_name self)) args,
                            Log ERROR msg [tid txn], LockRelease TxnLock,
                            CacheStore ob (serialized writer)]))"
  using assms by (auto simp: store_def Let_def)

text \<open>The theorem at concrete values.\<close>

theorem store_count_not_one_witness:
  "fst (store example_consts example_storage (Some ''A'') (Some 1) example_writer stored_obj
          example_txn (Inr [0]))
     = Raises (TIDConflictError
         (''Mismatch of tid of object being updated. This is likely '' @
          ''caused by a cache invalidation race condition and should '' @
          ''be an edge case. This should resolve on request retry.'') ''A'' (Some 1))
   \<and> fst (store example_consts example_storage (Some ''A'') None example_writer new_obj
          example_txn (Inr [0])) = Returns ()"
proof -
  have h: "length [0::int] \<noteq> 1 \<or> [0::int] ! 0 \<noteq> 1" by simp
  have a: "\<not> new_marker stored_obj \<and> p_serial stored_obj \<noteq> None" by (simp add: stored_obj_def)
  have b: "new_marker new_obj \<or> p_serial new_obj = None" by (simp add: new_obj_def)
  from store_count_not_one[OF h, of stored_obj example_consts example_storage "''A''" "Some 1"
      example_writer example_txn] a
  obtain msg where m: "fst (store example_consts example_storage (Some ''A'') (Some 1) example_writer
      stored_obj example_txn (Inr [0])) = Raises (TIDConflictError msg ''A'' (Some 1))" by blast
  have "fst (store example_consts example_storage (Some ''A'') (Some 1) example_writer stored_obj
          example_txn (Inr [0]))
     = Raises (TIDConflictError
         (''Mismatch of tid of object being updated. This is likely '' @
          ''caused by a cache invalidation race condition and should '' @
          ''be an edge case. This should resolve on request retry.'') ''A'' (Some 1))"
    by (simp add: store_def Let_def stored_obj_def)
  moreover from store_count_not_one[OF h, of new_obj example_consts example_storage "''A''" None
      example_writer example_txn] b
  have "fst (store example_consts example_storage (Some ''A'') None example_writer new_obj
          example_txn (Inr [0])) = Returns ()" by blast
  ultimately show ?thesis by simp
qed

text \<open>
  Claim C2. Called with an oid, \<open>store\<close> sends exactly one statement, on the session of the transaction, with
  twelve parameters of which the seventh is the old serial. The statement is \<open>NAIVE_UPSERT\<close>
  exactly when the object carries the new marker or its prior serial is null, and \<open>UPDATE\<close>
  otherwise; the text of \<open>UPDATE\<close> ends its \<open>WHERE\<close> clause with \<open>AND tid = $7::int\<close>.
\<close>

theorem store_statement_choice:
  "\<exists>stmt args.
      executed (snd (snd (store c self (Some oid) old_serial writer ob txn response)))
        = [(TxnConn, stmt, args)]
      \<and> (stmt = sql_get c N_NAIVE_UPSERT (objects_table_name self)
            \<longleftrightarrow> new_marker ob \<or> p_serial ob = None)
      \<and> (stmt = sql_get c N_UPDATE (objects_table_name self)
            \<longleftrightarrow> \<not> (new_marker ob \<or> p_serial ob = None))
      \<and> length args = 12 \<and> args ! 6 = opt_int old_serial
      \<and> sql_get c N_UPDATE (objects_table_name self) =
           ''WITH rows AS (\<newline>'' @
           ''\<newline>UPDATE '' @ objects_table_name self @ ''\<newline>'' @
           ''SET\<newline>'' @
           ''    tid = $2::int,\<newline>'' @
           ''    state_size = $3::int,\<newline>'' @
           ''    part = $4::int,\<newline>'' @
           ''    resource = $5::boolean,\<newline>'' @
           ''    of = $6::varchar('' @ oidlen c @ ''),\<newline>'' @
           ''    otid = $7::int,\<newline>'' @
           ''    parent_id = $8::varchar('' @ oidlen c @ ''),\<newline>'' @
           ''    id = $9::text,\<newline>'' @
           ''    type = $10::text,\<newline>'' @
           ''    json = $11::json,\<newline>'' @
           ''    state = $12::bytea\<newline>'' @
           ''WHERE\<newline>'' @
           ''    zoid = $1::varchar('' @ oidlen c @ '') AND tid = $7::int'' @
           ''\<newline>    RETURNING 1\<newline>)\<newline>SELECT count(*) FROM rows''"
  using upsert_differs_from_update[of c "objects_table_name self"]
        sql_get_UPDATE[of c "objects_table_name self"]
  by (simp only: executed_store) (auto simp del: append_assoc append.simps)

text \<open>The theorem at concrete values.\<close>

theorem store_statement_choice_witness:
  "(\<exists>args. executed (snd (snd (store example_consts example_storage (Some ''A'') (Some 1)
        example_writer stored_obj example_txn (Inr [1]))))
      = [(TxnConn, sql_get example_consts N_UPDATE ''objects'', args)]
      \<and> args ! 6 = PInt 1)
   \<and> (\<exists>args. executed (snd (snd (store example_consts example_storage (Some ''A'') None
        example_writer new_obj example_txn (Inr [1]))))
      = [(TxnConn, sql_get example_consts N_NAIVE_UPSERT ''objects'', args)]
      \<and> args ! 6 = PNull)"
proof -
  from store_statement_choice[of example_consts example_storage "''A''" "Some 1"
      example_writer stored_obj example_txn "Inr [1]"]
  have a: "\<exists>args. executed (snd (snd (store example_consts example_storage (Some ''A'') (Some 1)
        example_writer stored_obj example_txn (Inr [1]))))
      = [(TxnConn, sql_get example_consts N_UPDATE ''objects'', args)]
      \<and> args ! 6 = PInt 1"
    by (auto simp: stored_obj_def example_storage_def opt_int_def simp del: append_assoc append.simps)
  from store_statement_choice[of example_consts example_storage "''A''" None
      example_writer new_obj example_txn "Inr [1]"]
  have b: "\<exists>args. executed (snd (snd (store example_consts example_storage (Some ''A'') None
        example_writer new_obj example_txn (Inr [1]))))
      = [(TxnConn, sql_get example_consts N_NAIVE_UPSERT ''objects'', args)]
      \<and> args ! 6 = PNull"
    by (auto simp: new_obj_def example_storage_def opt_int_def simp del: append_assoc append.simps)
  from a b show ?thesis by blast
qed



text \<open>
  Claim C4. With a non-empty \<open>modified\<close>, \<open>get_conflicts\<close> takes the storage lock, runs one
  query on the shared read session and releases the lock: with fewer than 1000 modified
  oids the query is \<open>TXN_CONFLICTS_ON_OIDS\<close> (\<open>tid > $1 AND zoid = ANY($2)\<close>, with the
  transaction's tid and the modified oids), otherwise \<open>TXN_CONFLICTS\<close> (\<open>tid > $1\<close>, with the
  tid alone). It returns what the query answers.
\<close>

theorem get_conflicts_query_choice:
  assumes "modified txn \<noteq> []"
  shows "get_conflicts c self txn response =
           (answered response,
            [LockAcquire StorageLock,
             (if length (modified txn) < 1000
              then Fetch ReadConn
                     (''\<newline>    SELECT zoid, tid, state_size, resource, type, id\<newline>    FROM ''
                        @ objects_table_name self
                        @ ''\<newline>    WHERE tid > $1 AND zoid = ANY($2)'')
                     [PInt (tid txn), PStrs (map fst (modified txn))]
              else Fetch ReadConn
                     (''\<newline>    SELECT zoid, tid, state_size, resource, type, id\<newline>    FROM ''
                        @ objects_table_name self
                        @ ''\<newline>    WHERE tid > $1'')
                     [PInt (tid txn)]),
             LockRelease StorageLock])
       \<and> (length (modified txn) < 1000 \<longrightarrow>
            executed (snd (get_conflicts c self txn response))
              = [(ReadConn, sql_get c N_TXN_CONFLICTS_ON_OIDS (objects_table_name self),
                  [PInt (tid txn), PStrs (map fst (modified txn))])])
       \<and> (\<not> length (modified txn) < 1000 \<longrightarrow>
            executed (snd (get_conflicts c self txn response))
              = [(ReadConn, sql_get c N_TXN_CONFLICTS (objects_table_name self),
                  [PInt (tid txn)])])"
  using assms
  by (simp add: get_conflicts_def Let_def executed_def List.map_filter_def
        sql_get_TXN_CONFLICTS sql_get_TXN_CONFLICTS_ON_OIDS del: append_assoc)

text \<open>The theorem at concrete values.\<close>

theorem get_conflicts_query_choice_witness:
  "executed (snd (get_conflicts example_consts example_storage example_txn (Inr [])))
     = [(ReadConn, sql_get example_consts N_TXN_CONFLICTS_ON_OIDS ''objects'',
         [PInt 2, PStrs [''A'']])]
   \<and> executed (snd (get_conflicts example_consts example_storage big_txn (Inr [])))
     = [(ReadConn, sql_get example_consts N_TXN_CONFLICTS ''objects'', [PInt 2])]"
proof -
  have a: "modified example_txn \<noteq> []" by (simp add: example_txn_def)
  have b: "modified big_txn \<noteq> []" by (simp add: big_txn_def)
  have la: "length (modified example_txn) < 1000" by (simp add: example_txn_def)
  have lb: "\<not> length (modified big_txn) < 1000" by (simp add: big_txn_def)
  from get_conflicts_query_choice[OF a, of example_consts example_storage "Inr []"] la
  have "executed (snd (get_conflicts example_consts example_storage example_txn (Inr [])))
     = [(ReadConn, sql_get example_consts N_TXN_CONFLICTS_ON_OIDS (objects_table_name example_storage),
         [PInt (tid example_txn), PStrs (map fst (modified example_txn))])]" by blast
  moreover
  from get_conflicts_query_choice[OF b, of example_consts example_storage "Inr []"] lb
  have "executed (snd (get_conflicts example_consts example_storage big_txn (Inr [])))
     = [(ReadConn, sql_get example_consts N_TXN_CONFLICTS (objects_table_name example_storage),
         [PInt (tid big_txn)])]" by blast
  ultimately show ?thesis by (simp add: example_txn_def example_storage_def big_txn_def)
qed



text \<open>
  Claim C6. \<open>read_blob_chunks\<close> is said to stream the chunk rows of the blob in the order
  of \<open>chunk_index\<close>. The method opens its cursor on the \<open>bid\<close> itself, as the text of the
  query and without parameters: for the blob \<open>b1\<close> the query sent is \<open>b1\<close>, which is not
  the registered statement over the blobs table.
\<close>

theorem read_blob_chunks_sends_bid:
  "snd (snd (read_blob_chunks example_storage ''b1'' response)) = [GetConnection, Cursor TxnConn ''b1'' []]
   \<and> executed (snd (snd (read_blob_chunks example_storage ''b1'' response))) = [(TxnConn, ''b1'', [])]
   \<and> ''b1'' \<noteq> sql_get example_consts N_READ_BLOB_CHUNK (blobs_table_name example_storage)"
  by (simp add: read_blob_chunks_def executed_def List.map_filter_def sql_get_def READ_BLOB_CHUNK_def)

text \<open>
  Claim C7. \<open>get_annotation\<close> returns \<open>None\<close> when the row that comes back has the trash
  sentinel as its \<open>parent_id\<close>; \<open>get_annotation_keys\<close> returns the rows that come back
  without those whose \<open>parent_id\<close> is the trash sentinel, in the same order.
\<close>

theorem annotation_reads_filter_trash:
  "(row_parent_id row = Some (TRASHED_ID c) \<longrightarrow>
      fst (get_annotation c self oid ident (Inr (Some row))) = Returns None)
   \<and> (row_parent_id row \<noteq> Some (TRASHED_ID c) \<longrightarrow>
      fst (get_annotation c self oid ident (Inr (Some row))) = Returns (Some row))
   \<and> fst (get_annotation_keys c self oid (Inr rows))
       = Returns (filter (\<lambda>item. row_parent_id item \<noteq> Some (TRASHED_ID c)) rows)
   \<and> (\<forall>res. fst (get_annotation_keys c self oid (Inr rows)) = Returns res \<longrightarrow>
         (\<forall>item \<in> set res. row_parent_id item \<noteq> Some (TRASHED_ID c)))"
  by (auto simp: get_annotation_def get_annotation_keys_def get_one_row_def answered_def Let_def
        append_untrashed_filter)

text \<open>The theorem at concrete values.\<close>

theorem annotation_reads_filter_trash_witness:
  "fst (get_annotation example_consts example_storage ''A'' ''a'' (Inr (Some trashed_row)))
     = Returns None
   \<and> fst (get_annotation example_consts example_storage ''A'' ''b'' (Inr (Some live_row)))
     = Returns (Some live_row)
   \<and> fst (get_annotation_keys example_consts example_storage ''A''
            (Inr [live_row, trashed_row, live_row])) = Returns [live_row, live_row]"
proof -
  have t: "row_parent_id trashed_row = Some (TRASHED_ID example_consts)"
    by (simp add: trashed_row_def example_consts_def)
  have l: "row_parent_id live_row \<noteq> Some (TRASHED_ID example_consts)"
    by (simp add: live_row_def example_consts_def)
  from annotation_reads_filter_trash[of trashed_row example_consts example_storage "''A''" "''a''"
      "[live_row, trashed_row, live_row]"] t
  have a: "fst (get_annotation example_consts example_storage ''A'' ''a'' (Inr (Some trashed_row)))
     = Returns None
   \<and> fst (get_annotation_keys example_consts example_storage ''A''
            (Inr [live_row, trashed_row, live_row])) = Returns [live_row, live_row]"
    by (simp add: trashed_row_def live_row_def example_consts_def)
  from annotation_reads_filter_trash[of live_row example_consts example_storage "''A''" "''b''"
      "[]"] l
  have "fst (get_annotation example_consts example_storage ''A'' ''b'' (Inr (Some live_row)))
     = Returns (Some live_row)" by blast
  with a show ?thesis by blast
qed



text \<open>
  Claim C9. With an empty \<open>modified\<close>, \<open>get_conflicts\<close> takes and releases the storage
  lock, sends no statement and returns the empty list.
\<close>

theorem get_conflicts_nothing_modified:
  "modified txn = [] \<Longrightarrow>
   get_conflicts c self txn response
     = (Returns [], [LockAcquire StorageLock, LockRelease StorageLock])
   \<and> executed (snd (get_conflicts c self txn response)) = []"
  by (simp add: get_conflicts_def executed_def List.map_filter_simps)

text \<open>The theorem at concrete values.\<close>

theorem get_conflicts_nothing_modified_witness:
  "get_conflicts example_consts example_storage unmodified_txn (Inr [''never asked''])
     = (Returns [], [LockAcquire StorageLock, LockRelease StorageLock])"
proof -
  have "modified unmodified_txn = []" by (simp add: unmodified_txn_def)
  from get_conflicts_nothing_modified[OF this] show ?thesis by blast
qed



end

